theory Spec2Isabelle
  imports Main
begin

section \<open>JavaScript values and strings\<close>

text \<open>
  A value that the TypeScript source treats as a string that may be missing:
  \<^verbatim>\<open>undefined\<close>, \<^verbatim>\<open>null\<close> or a string. \<open>falsy\<close> is the source's \<^verbatim>\<open>!x\<close>,
  \<open>to_string\<close> is the coercion of a template literal or of \<^verbatim>\<open>+\<close> with a string.
\<close>

datatype jsval = Undefined | Null | Str string

fun truthy :: "jsval \<Rightarrow> bool" where
  "truthy Undefined = False"
| "truthy Null = False"
| "truthy (Str s) = (s \<noteq> [])"

fun falsy :: "jsval \<Rightarrow> bool" where
  "falsy Undefined = True"
| "falsy Null = True"
| "falsy (Str s) = (s = [])"

fun to_string :: "jsval \<Rightarrow> string" where
  "to_string Undefined = ''undefined''"
| "to_string Null = ''null''"
| "to_string (Str s) = s"

text \<open>\<^verbatim>\<open>os.EOL\<close> on a POSIX host.\<close>

definition EOL :: string where
  "EOL = [CHR 0x0A]"

text \<open>Decimal rendering of a number inside a template literal.\<close>

function show_nat :: "nat \<Rightarrow> string" where
  "show_nat n =
     (if n < 10 then [''0123456789'' ! n]
      else show_nat (n div 10) @ [''0123456789'' ! (n mod 10)])"
  by pat_completeness auto
termination
  by (relation "measure id") auto

declare show_nat.simps [simp del]

definition show_int :: "int \<Rightarrow> string" where
  "show_int i = (if i < 0 then ''-'' @ show_nat (nat (- i)) else show_nat (nat i))"

text \<open>
  \<^verbatim>\<open>path.join\<close>: the non-empty segments joined by the separator, \<^verbatim>\<open>.\<close> when nothing
  is left. The normalisation of \<^verbatim>\<open>.\<close>, \<^verbatim>\<open>..\<close> and doubled separators inside a segment is
  not modelled. \<^verbatim>\<open>path.basename\<close>: what follows the last separator.
\<close>

fun join_segments :: "string list \<Rightarrow> string" where
  "join_segments [] = []"
| "join_segments [s] = s"
| "join_segments (s # t # ss) = s @ ''/'' @ join_segments (t # ss)"

definition path_join :: "string list \<Rightarrow> string" where
  "path_join ss =
     (let r = join_segments (filter (\<lambda>s. s \<noteq> []) ss) in if r = [] then ''.'' else r)"

definition path_basename :: "string \<Rightarrow> string" where
  "path_basename p = rev (takeWhile (\<lambda>c. c \<noteq> CHR ''/'') (rev p))"

text \<open>\<^verbatim>\<open>s.startsWith(pre)\<close> and \<^verbatim>\<open>s.substr(n)\<close>.\<close>

definition startsWith :: "string \<Rightarrow> string \<Rightarrow> bool" where
  "startsWith s pre = (take (length pre) s = pre)"

definition substr :: "string \<Rightarrow> nat \<Rightarrow> string" where
  "substr s n = drop n s"

section \<open>Configuration, collaborators and the observable world\<close>

text \<open>
  Modelled from the spec: the class \<^verbatim>\<open>Properties\<close> (common/Properties) is not part of
  the source file. A property set maps dotted keys to values; \<open>props_get\<close> on a missing
  key gives an absent value, a later merged layer overrides an earlier one, and prefix
  extraction keeps the keys under \<^verbatim>\<open>prefix.\<close> with the prefix stripped.
\<close>

type_synonym properties = "string \<rightharpoonup> jsval"

definition props_get :: "properties \<Rightarrow> string \<Rightarrow> jsval" where
  "props_get ps k = (case ps k of None \<Rightarrow> Undefined | Some v \<Rightarrow> v)"

definition props_set :: "properties \<Rightarrow> string \<Rightarrow> jsval \<Rightarrow> properties" where
  "props_set ps k v = ps(k \<mapsto> v)"

definition props_merge :: "properties \<Rightarrow> properties \<Rightarrow> properties" where
  "props_merge ps other = ps ++ other"

definition extractWithPrefix :: "properties \<Rightarrow> string \<Rightarrow> properties" where
  "extractWithPrefix ps prefix = (\<lambda>k. ps (prefix @ ''.'' @ k))"

record arduino_settings =
  commandPath :: string
  builderPath :: string
  arduinoPath :: string
  packagePath :: string
  defaultPackagePath :: string
  sketchbookPath :: string
  toolProperties :: properties

record vscode_settings =
  builder :: string
  logLevel :: string
  uploadCommand :: string
  verifyCommand :: string

text \<open>
  The board selected in the board manager: \<^verbatim>\<open>getPackageName()\<close>,
  \<^verbatim>\<open>platform.architecture\<close>, \<^verbatim>\<open>board\<close> and \<^verbatim>\<open>getBuildConfig()\<close>.
\<close>

record board_descriptor =
  getPackageName :: string
  architecture :: string
  board :: string
  getBuildConfig :: string

record device_context =
  sketch :: jsval
  port :: jsval
  outputDir :: jsval

datatype port_info = PortInfo (comName: string)

datatype fs_node = File | Directory "string list"

datatype message = NO_BOARD_SELECTED

text \<open>
  What a call can throw: a JavaScript \<^verbatim>\<open>TypeError\<close> (a member of \<^verbatim>\<open>undefined\<close>, a path
  operation on a non-string), the \<^verbatim>\<open>Error\<close> raised by \<open>getMainSketch\<close>, and the
  rejection of \<^verbatim>\<open>SerialPortCtrl.open\<close>.
\<close>

datatype error = TypeError | Error string | SerialOpenError

text \<open>Every effect on a collaborator, in the order in which it happens.\<close>

datatype event =
    ChannelShow
  | ChannelStart string
  | ChannelEnd string
  | ChannelError string
  | ChannelInfo string
  | ShowWarningMessage string
  | ShowErrorMessage string
  | NotifyUserError string message
  | Spawn "string option" bool "string list" "jsval option"
  | Delay nat
  | ListPorts
  | SerialOpen jsval nat
  | SerialStop jsval
  | PauseListening
  | ResumeListening
  | CloseSerialMonitor jsval
  | OpenSerialMonitor
  | SaveAll
  | LoadFile string
  | Mkdir string
  | ResolveMainSketch

text \<open>
  The environment of a call: the settings objects, the selected board, the workspace
  root, the file system, and the answers of the collaborators that are not in the source
  file (the exit code of a spawned process, the successive serial port enumerations,
  whether a serial port can be opened, the sketch that auto-discovery finds, the parsed
  content of a properties file, and \<^verbatim>\<open>util.splitArgs\<close>).
\<close>

record env =
  settings :: arduino_settings
  vscode :: vscode_settings
  currentBoard :: "board_descriptor option"
  rootPath :: jsval
  fs :: "string \<rightharpoonup> fs_node"
  spawn_exit :: "string option \<Rightarrow> string list \<Rightarrow> int"
  list_at :: "nat \<Rightarrow> port_info list"
  open_ok :: "jsval \<Rightarrow> bool"
  discovered_sketch :: jsval
  file_props :: "string \<Rightarrow> (string \<times> string) list"
  splitArgs :: "jsval \<Rightarrow> string list"

text \<open>
  The mutable world: the trace of effects, the number of port enumerations made so far,
  whether the device-hotplug listener is listening, how many serial handles are open,
  whether the serial monitor is open, and the \<^verbatim>\<open>DeviceContext\<close> singleton.
\<close>

record world =
  trace :: "event list"
  list_calls :: nat
  listening :: bool
  handles :: nat
  monitor_open :: bool
  dc :: device_context

definition emit :: "event \<Rightarrow> world \<Rightarrow> world" where
  "emit e w = w\<lparr>trace := trace w @ [e]\<rparr>"

text \<open>
  Modelled from the spec: \<^verbatim>\<open>util.spawn\<close> (common/util) is not part of the source file.
  It runs the executable and rejects with the exit code on a non-zero exit. The
  environment decides the exit code of every call; a process that cannot be started at
  all, whose rejection carries no numeric code, is outside this model.
\<close>

definition util_spawn ::
  "env \<Rightarrow> string option \<Rightarrow> bool \<Rightarrow> string list \<Rightarrow> jsval option \<Rightarrow> world \<Rightarrow> (int + unit) \<times> world" where
  "util_spawn E cmd sink args cwd w =
     (let w1 = emit (Spawn cmd sink args cwd) w;
          code = spawn_exit E cmd args
      in (if code = 0 then Inr () else Inl code, w1))"

section \<open>Package and library installation\<close>

text \<open>The source's \<^verbatim>\<open>${s && ":" + s}\<close> for a string \<open>s\<close>.\<close>

definition and_colon :: "string \<Rightarrow> string" where
  "and_colon s = (if s = [] then [] else '':'' @ s)"

definition installBoard :: "env \<Rightarrow> string \<Rightarrow> string \<Rightarrow> string \<Rightarrow> bool \<Rightarrow> world \<Rightarrow> world" where
  "installBoard E packageName arch version showOutput w =
     (let w1 = emit ChannelShow w;
          updatingIndex = (packageName = ''dummy'' \<and> arch = [] \<and> version = []);
          w2 = (if updatingIndex then emit (ChannelStart ''Update package index files...'') w1
                else emit (ChannelStart (''Install package - '' @ packageName @ ''...'')) w1);
          (r, w3) = util_spawn E (Some (commandPath (settings E))) showOutput
                      [''--install-boards'', packageName @ and_colon arch @ and_colon version] None w2
      in case r of
           Inr _ \<Rightarrow>
             (if updatingIndex then emit (ChannelEnd ''Updated package index files.'') w3
              else emit (ChannelEnd (''Installed board package - '' @ packageName @ EOL)) w3)
         | Inl code \<Rightarrow>
             (if code = 1 then
                (if updatingIndex then emit (ChannelEnd ''Updated package index files.'') w3
                 else emit (ChannelEnd (''Installed board package - '' @ packageName @ EOL)) w3)
              else emit (ChannelError (''Exit with code='' @ show_int code @ EOL)) w3))"

definition installLibrary :: "env \<Rightarrow> string \<Rightarrow> string \<Rightarrow> bool \<Rightarrow> world \<Rightarrow> world" where
  "installLibrary E libName version showOutput w =
     (let w1 = emit ChannelShow w;
          updatingIndex = (libName = ''dummy'' \<and> version = []);
          w2 = (if updatingIndex then emit (ChannelStart ''Update library index files...'') w1
                else emit (ChannelStart (''Install library - '' @ libName)) w1);
          (r, w3) = util_spawn E (Some (commandPath (settings E))) showOutput
                      [''--install-library'', libName @ and_colon version] None w2
      in case r of
           Inr _ \<Rightarrow>
             (if updatingIndex then emit (ChannelEnd ''Updated library index files.'') w3
              else emit (ChannelEnd (''Installed library - '' @ libName @ EOL)) w3)
         | Inl code \<Rightarrow>
             (if code = 1 then
                (if updatingIndex then emit (ChannelEnd ''Updated library index files.'') w3
                 else emit (ChannelEnd (''Installed library - '' @ libName @ EOL)) w3)
              else emit (ChannelError (''Exit with code='' @ show_int code @ EOL)) w3))"

section \<open>Collaborators of the upload and verify pipelines\<close>

text \<open>
  Modelled from the spec: \<^verbatim>\<open>util.delay\<close>, \<^verbatim>\<open>SerialPortCtrl\<close>, \<^verbatim>\<open>SerialMonitor\<close>,
  \<^verbatim>\<open>UsbDetector\<close>, \<^verbatim>\<open>Properties.loadFile\<close> and the file predicates of \<^verbatim>\<open>util\<close> are not
  part of the source file. Each one records its call in the trace and changes the part of
  the world it owns: the enumeration returns the next snapshot of the environment, a
  successful open holds one more handle, \<open>stop\<close> releases the handle of a controller
  that holds one, closing the serial monitor reports whether it was open.
\<close>

fun resolved :: "'e + 'a \<Rightarrow> bool" where
  "resolved (Inr _) = True"
| "resolved (Inl _) = False"

definition delay :: "nat \<Rightarrow> world \<Rightarrow> world" where
  "delay ms w = emit (Delay ms) w"

definition SerialPortCtrl_list :: "env \<Rightarrow> world \<Rightarrow> port_info list \<times> world" where
  "SerialPortCtrl_list E w =
     (list_at E (list_calls w), emit ListPorts (w\<lparr>list_calls := Suc (list_calls w)\<rparr>))"

definition SerialPortCtrl_open :: "env \<Rightarrow> jsval \<Rightarrow> nat \<Rightarrow> world \<Rightarrow> (error + unit) \<times> world" where
  "SerialPortCtrl_open E p baud w =
     (let w1 = emit (SerialOpen p baud) w
      in if open_ok E p then (Inr (), w1\<lparr>handles := Suc (handles w1)\<rparr>)
         else (Inl SerialOpenError, w1))"

definition SerialPortCtrl_stop :: "jsval \<Rightarrow> bool \<Rightarrow> world \<Rightarrow> world" where
  "SerialPortCtrl_stop p holds w =
     (let w1 = emit (SerialStop p) w
      in if holds then w1\<lparr>handles := handles w1 - 1\<rparr> else w1)"

definition closeSerialMonitor :: "jsval \<Rightarrow> world \<Rightarrow> bool \<times> world" where
  "closeSerialMonitor p w =
     (monitor_open w, emit (CloseSerialMonitor p) (w\<lparr>monitor_open := False\<rparr>))"

definition openSerialMonitor :: "world \<Rightarrow> world" where
  "openSerialMonitor w = emit OpenSerialMonitor (w\<lparr>monitor_open := True\<rparr>)"

definition pauseListening :: "world \<Rightarrow> world" where
  "pauseListening w = emit PauseListening (w\<lparr>listening := False\<rparr>)"

definition resumeListening :: "world \<Rightarrow> world" where
  "resumeListening w = emit ResumeListening (w\<lparr>listening := True\<rparr>)"

definition loadFile :: "env \<Rightarrow> string \<Rightarrow> world \<Rightarrow> properties \<times> world" where
  "loadFile E path w =
     (map_option Str \<circ> map_of (file_props E path), emit (LoadFile path) w)"

definition fileExistsSync :: "env \<Rightarrow> string \<Rightarrow> bool" where
  "fileExistsSync E p = (fs E p = Some File)"

definition directoryExistsSync :: "env \<Rightarrow> string \<Rightarrow> bool" where
  "directoryExistsSync E p = (case fs E p of Some (Directory _) \<Rightarrow> True | _ \<Rightarrow> False)"

text \<open>
  \<^verbatim>\<open>fs.lstatSync\<close> throws when the path does not exist and otherwise returns the stats of
  the node; \<^verbatim>\<open>fs.readdirSync\<close> throws unless the path is a directory.
\<close>

datatype stats = Stats (isDirectory: bool)

datatype fs_error = ENOENT | ENOTDIR

definition lstatSync :: "env \<Rightarrow> string \<Rightarrow> fs_error + stats" where
  "lstatSync E p =
     (case fs E p of
        None \<Rightarrow> Inl ENOENT
      | Some File \<Rightarrow> Inr (Stats False)
      | Some (Directory _) \<Rightarrow> Inr (Stats True))"

definition readdirSync :: "env \<Rightarrow> string \<Rightarrow> fs_error + string list" where
  "readdirSync E p =
     (case fs E p of
        None \<Rightarrow> Inl ENOENT
      | Some File \<Rightarrow> Inl ENOTDIR
      | Some (Directory names) \<Rightarrow> Inr names)"

text \<open>
  The truth value of a method member that is read but not called, as in
  \<^verbatim>\<open>if (stat.isDirectory)\<close>: the member is a function object, and every object is truthy.
\<close>

definition member_truthy :: "('a \<Rightarrow> 'b) \<Rightarrow> bool" where
  "member_truthy m = True"

section \<open>Board selection and main sketch\<close>

definition getBoardBuildString :: "env \<Rightarrow> world \<Rightarrow> jsval \<times> world" where
  "getBoardBuildString E w =
     (case currentBoard E of
        None \<Rightarrow> (Undefined, emit (NotifyUserError ''getBoardBuildString'' NO_BOARD_SELECTED) w)
      | Some selectedBoard \<Rightarrow> (Str (getBuildConfig selectedBoard), w))"

definition getMainSketch :: "env \<Rightarrow> world \<Rightarrow> (error + unit) \<times> world" where
  "getMainSketch E w =
     (let w1 = emit ResolveMainSketch (w\<lparr>dc := (dc w)\<lparr>sketch := discovered_sketch E\<rparr>\<rparr>)
      in if falsy (sketch (dc w1)) then
           (Inl (Error ''No sketch file was found.''),
            emit (ShowErrorMessage
              ''No sketch file was found. Please specify the sketch in the arduino.json file'') w1)
         else (Inr (), w1))"

section \<open>Serial port negotiation\<close>

text \<open>
  The inner \<^verbatim>\<open>for\<close> loop of \<open>waitForUploadPort\<close>: the first port of \<open>now\<close> whose name no
  port of \<open>beforePorts\<close> (the source's \<^verbatim>\<open>before\<close>) has.
\<close>

definition first_new :: "port_info list \<Rightarrow> port_info list \<Rightarrow> port_info option" where
  "first_new beforePorts now = find (\<lambda>p. \<not> list_ex (\<lambda>b. comName b = comName p) beforePorts) now"

function waitForUploadPort_loop ::
  "env \<Rightarrow> jsval \<Rightarrow> port_info list \<Rightarrow> nat \<Rightarrow> world \<Rightarrow> jsval \<times> world" where
  "waitForUploadPort_loop E uploadPort beforePorts elapsed w =
     (if elapsed < 10000 then
        (let now = fst (SerialPortCtrl_list E w); w1 = snd (SerialPortCtrl_list E w)
         in case first_new beforePorts now of
              Some p \<Rightarrow> (Str (comName p), w1)
            | None \<Rightarrow>
                (let w2 = delay 250 w1; elapsed' = elapsed + 250
                 in if elapsed' \<ge> 5000 \<and> list_ex (\<lambda>p. Str (comName p) = uploadPort) now
                    then (uploadPort, w2)
                    else waitForUploadPort_loop E uploadPort now elapsed' w2))
      else (Undefined, w))"
  by pat_completeness auto
termination
  by (relation "measure (\<lambda>(E, uploadPort, beforePorts, elapsed, w). 10000 - elapsed)") auto

declare waitForUploadPort_loop.simps [simp del]

definition waitForUploadPort :: "env \<Rightarrow> jsval \<Rightarrow> port_info list \<Rightarrow> world \<Rightarrow> jsval \<times> world" where
  "waitForUploadPort E uploadPort beforePorts w = waitForUploadPort_loop E uploadPort beforePorts 0 w"

function waitForPort_loop :: "env \<Rightarrow> jsval \<Rightarrow> nat \<Rightarrow> world \<Rightarrow> world" where
  "waitForPort_loop E p elapsed w =
     (if elapsed < 2000 then
        (let ports = fst (SerialPortCtrl_list E w); w1 = snd (SerialPortCtrl_list E w)
         in if list_ex (\<lambda>q. Str (comName q) = p) ports then w1
            else waitForPort_loop E p (elapsed + 250) (delay 250 w1))
      else w)"
  by pat_completeness auto
termination
  by (relation "measure (\<lambda>(E, p, elapsed, w). 2000 - elapsed)") auto

declare waitForPort_loop.simps [simp del]

definition waitForPort :: "env \<Rightarrow> jsval \<Rightarrow> world \<Rightarrow> world" where
  "waitForPort E p w = waitForPort_loop E p 0 (delay 1000 w)"

definition prepareUploadPort ::
  "env \<Rightarrow> properties \<Rightarrow> device_context \<Rightarrow> bool \<Rightarrow> world \<Rightarrow> (error + jsval) \<times> world" where
  "prepareUploadPort E uploadProperties d verbose w =
     (let doTouch = (props_get uploadProperties ''upload.use_1200bps_touch'' = Str ''true'');
          waitForIt = (props_get uploadProperties ''upload.wait_for_upload_port'' = Str ''true'');
          actualUploadPort = Null
      in if doTouch then
           (let (beforePorts, w1) = SerialPortCtrl_list E w;
                (touched, w2) =
                   (if list_ex (\<lambda>p. Str (comName p) = port d) beforePorts then
                      (let wi = (if verbose then
                                   emit (ChannelInfo (''Forcing reset using 1200bps open/close on port ''
                                                      @ to_string (port d))) w1
                                 else w1);
                           (opened, wo) = SerialPortCtrl_open E (port d) 1200 wi;
                           ws = SerialPortCtrl_stop (port d) (resolved opened) wo
                       in (opened, ws))
                    else (Inr (), w1))
            in case touched of
                 Inl e \<Rightarrow> (Inl e, w2)
               | Inr _ \<Rightarrow>
                   (let w3 = delay 400 w2;
                        (actualUploadPort, w4) =
                           (if waitForIt then
                              (let (found, ww) = waitForUploadPort E (port d) beforePorts w3
                               in (found, delay 250 ww))
                            else (actualUploadPort, w3));
                        w5 = delay 400 w4
                    in (Inr (if actualUploadPort = Null then port d else actualUploadPort), w5)))
         else
           (let w5 = delay 400 w
            in (Inr (if actualUploadPort = Null then port d else actualUploadPort), w5)))"

section \<open>Platform path resolution\<close>

definition resolvePackagePath :: "env \<Rightarrow> error + string option" where
  "resolvePackagePath E =
     (case currentBoard E of
        None \<Rightarrow> Inl TypeError
      | Some b \<Rightarrow>
          (let packager = getPackageName b;
               arch = architecture b;
               builtInPath = path_join [defaultPackagePath (settings E), packager, arch];
               builtIn = (case lstatSync E builtInPath of
                            Inr stat \<Rightarrow> (if member_truthy isDirectory then Some builtInPath else None)
                          | Inl err \<Rightarrow> None)
           in case builtIn of
                Some found \<Rightarrow> Inr (Some found)
              | None \<Rightarrow>
                  (let externalPath =
                         path_join [packagePath (settings E), ''packages'', packager, ''hardware'', arch]
                   in case readdirSync E externalPath of
                        Inr files \<Rightarrow>
                          (case files of
                             version # _ \<Rightarrow> Inr (Some (path_join [externalPath, version]))
                           | [] \<Rightarrow> Inr None)
                      | Inl err \<Rightarrow> Inr None)))"

section \<open>Upload strategies\<close>

text \<open>
  \<^verbatim>\<open>path.join\<close> of two values that may be missing: an argument that is not a string
  throws a \<^verbatim>\<open>TypeError\<close>. \<open>arg0\<close> is \<^verbatim>\<open>args[0]\<close>, absent for an empty array;
  \<^verbatim>\<open>args.slice(1)\<close> is \<open>tl\<close>.
\<close>

fun js_path_join :: "jsval \<Rightarrow> jsval \<Rightarrow> error + string" where
  "js_path_join (Str a) (Str b) = Inr (path_join [a, b])"
| "js_path_join _ _ = Inl TypeError"

fun arg0 :: "string list \<Rightarrow> string option" where
  "arg0 [] = None"
| "arg0 (a # _) = Some a"

definition uploadByCommand ::
  "env \<Rightarrow> device_context \<Rightarrow> string \<Rightarrow> world \<Rightarrow> (error + unit) \<times> world" where
  "uploadByCommand E d boardDescriptor w =
     (let w1 = emit ChannelShow w;
          w2 = emit (ChannelStart (''Upload sketch - '' @ to_string (sketch d))) w1;
          (needRestore, w3) = closeSerialMonitor (port d) w2;
          w4 = emit SaveAll w3;
          args = splitArgs E (Str (uploadCommand (vscode E)));
          (r, w5) = util_spawn E (arg0 args) True (tl args) (Some (rootPath E)) w4
      in case r of
           Inr _ \<Rightarrow>
             (let w6 = (if needRestore then openSerialMonitor w5 else w5)
              in (Inr (), emit (ChannelEnd (''Uploaded the sketch: '' @ to_string (sketch d) @ EOL)) w6))
         | Inl code \<Rightarrow>
             (Inr (), emit (ChannelError (''Exit with code='' @ show_int code @ EOL)) w5))"

definition uploadByPattern ::
  "env \<Rightarrow> device_context \<Rightarrow> string \<Rightarrow> world \<Rightarrow> (error + unit) \<times> world" where
  "uploadByPattern E d boardDescriptor w =
     (case resolvePackagePath E of
        Inl e \<Rightarrow> (Inl e, w)
      | Inr None \<Rightarrow> (Inr (), emit (ShowErrorMessage ''Cannot found properties for upload.'') w)
      | Inr (Some packageDir) \<Rightarrow>
          (let (platformProps, w1) = loadFile E (path_join [packageDir, ''platform.txt'']) w;
               (boardPref, w2) = loadFile E (path_join [packageDir, ''boards.txt'']) w1
           in case currentBoard E of
                None \<Rightarrow> (Inl TypeError, w2)
              | Some b \<Rightarrow>
                  (let up1 = props_merge platformProps (extractWithPrefix boardPref (board b));
                       up2 = props_merge up1 (toolProperties (settings E))
                   in if falsy (outputDir d) then
                        (Inr (), emit (ShowErrorMessage ''No output folder specified. Cannot find binary.'') w2)
                      else
                        (case (js_path_join (rootPath E) (outputDir d), sketch d) of
                           (Inr outputPath, Str sk) \<Rightarrow>
                             (let up3 = props_set up2 ''build.path'' (Str outputPath);
                                  up4 = props_set up3 ''build.project_name'' (Str (path_basename sk));
                                  tool = props_get up4 ''upload.tool'';
                                  verbose = (logLevel (vscode E) = ''verbose'');
                                  up5 = (if verbose then
                                           props_set up4 ''upload.verbose''
                                             (props_get up4 (''tools.'' @ to_string tool @ ''.upload.params.verbose''))
                                         else
                                           props_set up4 ''upload.verbose''
                                             (props_get up4 (''tools.'' @ to_string tool @ ''.upload.params.quiet'')));
                                  (needRestore, w3) = closeSerialMonitor (port d) w2;
                                  (prepared, w4) = prepareUploadPort E up5 d verbose w3
                              in case prepared of
                                   Inl e \<Rightarrow> (Inl e, w4)
                                 | Inr actualUploadPort \<Rightarrow>
                                     (let up6 = props_set up5 ''serial.port'' actualUploadPort
                                      in case actualUploadPort of
                                           Str a \<Rightarrow>
                                             (let up7 = (if startsWith a ''/dev/'' then
                                                           props_set up6 ''serial.port.file'' (Str (substr a 5))
                                                         else props_set up6 ''serial.port.file'' (Str a));
                                                  cmd = props_get up7 (''tools.'' @ to_string tool @ ''.upload.pattern'');
                                                  args = splitArgs E cmd;
                                                  (r, w5) = util_spawn E (arg0 args) True (tl args)
                                                              (Some (rootPath E)) w4
                                              in case r of
                                                   Inr _ \<Rightarrow>
                                                     (let w6 = waitForPort E (port d) w5;
                                                          w7 = (if needRestore then openSerialMonitor w6 else w6)
                                                      in (Inr (), emit (ChannelEnd (''Uploaded the sketch: ''
                                                                          @ to_string (sketch d) @ EOL)) w7))
                                                 | Inl code \<Rightarrow>
                                                     (Inr (), emit (ChannelError (''Exit with code=''
                                                                      @ show_int code @ EOL)) w5))
                                         | _ \<Rightarrow> (Inl TypeError, w4)))
                         | _ \<Rightarrow> (Inl TypeError, w2)))))"

text \<open>
  The argument \<^verbatim>\<open>dc.port\<close> of the IDE call is a string when \<open>upload\<close> dispatches: it
  has been tested to be truthy.
\<close>

definition uploadByArduinoIde ::
  "env \<Rightarrow> device_context \<Rightarrow> string \<Rightarrow> world \<Rightarrow> (error + unit) \<times> world" where
  "uploadByArduinoIde E d boardDescriptor w =
     (let w1 = emit ChannelShow w;
          w2 = emit (ChannelStart (''Upload sketch - '' @ to_string (sketch d))) w1;
          (needRestore, w3) = closeSerialMonitor (port d) w2;
          w4 = emit SaveAll w3
      in case js_path_join (rootPath E) (sketch d) of
           Inl e \<Rightarrow> (Inl e, w4)
         | Inr appPath \<Rightarrow>
             (let args = [''--upload'', ''--board'', boardDescriptor, ''--port'', to_string (port d), appPath]
                         @ (if logLevel (vscode E) = ''verbose'' then [''--verbose''] else []);
                  (r, w5) = util_spawn E (Some (commandPath (settings E))) True args None w4
              in case r of
                   Inr _ \<Rightarrow>
                     (let w6 = (if needRestore then openSerialMonitor w5 else w5)
                      in (Inr (), emit (ChannelEnd (''Uploaded the sketch: '' @ to_string (sketch d) @ EOL)) w6))
                 | Inl code \<Rightarrow>
                     (Inr (), emit (ChannelError (''Exit with code='' @ show_int code @ EOL)) w5)))"

text \<open>
  The test \<^verbatim>\<open>!dc.sketch || !util.fileExistsSync(path.join(rootPath, dc.sketch))\<close>; the
  path is only computed for a truthy sketch under a truthy workspace root, both strings.
\<close>

definition sketch_missing :: "env \<Rightarrow> device_context \<Rightarrow> bool" where
  "sketch_missing E d =
     (falsy (sketch d) \<or>
      \<not> fileExistsSync E (path_join [to_string (rootPath E), to_string (sketch d)]))"

definition upload :: "env \<Rightarrow> world \<Rightarrow> (error + unit) \<times> world" where
  "upload E w =
     (let (boardDescriptor, w1) = getBoardBuildString E w
      in if falsy boardDescriptor then (Inr (), w1)
         else if falsy (rootPath E) then
           (Inr (), emit (ShowWarningMessage ''Cannot find the sketch file.'') w1)
         else
           (let (found, w2) = (if sketch_missing E (dc w1) then getMainSketch E w1 else (Inr (), w1))
            in case found of
                 Inl e \<Rightarrow> (Inl e, w2)
               | Inr _ \<Rightarrow>
                   if falsy (port (dc w2)) then
                     (Inr (), emit (ShowErrorMessage ''Please specify the upload serial port.'') w2)
                   else
                     (let w3 = pauseListening w2;
                          (done, w4) =
                             (if builder (vscode E) = ''command'' then
                                uploadByCommand E (dc w3) (to_string boardDescriptor) w3
                              else if builder (vscode E) = ''arduino-builder'' then
                                uploadByPattern E (dc w3) (to_string boardDescriptor) w3
                              else uploadByArduinoIde E (dc w3) (to_string boardDescriptor) w3)
                      in case done of
                           Inl e \<Rightarrow> (Inl e, w4)
                         | Inr _ \<Rightarrow> (Inr (), resumeListening w4))))"

section \<open>Verify strategies\<close>

definition verifyByCommand ::
  "env \<Rightarrow> device_context \<Rightarrow> string \<Rightarrow> string \<Rightarrow> world \<Rightarrow> (error + bool) \<times> world" where
  "verifyByCommand E d boardDescriptor out w =
     (let w1 = emit (ChannelStart (''Verify sketch - '' @ to_string (sketch d))) w;
          w2 = emit ChannelShow w1;
          args = splitArgs E (Str (verifyCommand (vscode E)));
          (r, w3) = util_spawn E (arg0 args) True (tl args) (Some (rootPath E)) w2
      in case r of
           Inr _ \<Rightarrow>
             (Inr True, emit (ChannelEnd (''Finished verify sketch - '' @ to_string (sketch d) @ EOL)) w3)
         | Inl code \<Rightarrow>
             (Inr False, emit (ChannelError (''Exit with code='' @ show_int code @ EOL)) w3))"

text \<open>
  The \<^verbatim>\<open>forEach\<close> loops of the builder strategy: each directory that exists is pushed
  after its flag.
\<close>

definition push_existing :: "env \<Rightarrow> string \<Rightarrow> string list \<Rightarrow> string list" where
  "push_existing E flag ps =
     concat (map (\<lambda>p. if directoryExistsSync E p then [flag, p] else []) ps)"

text \<open>The source's \<^verbatim>\<open>output || dc.output\<close>.\<close>

definition output_or :: "string \<Rightarrow> device_context \<Rightarrow> jsval" where
  "output_or out d = (if out \<noteq> [] then Str out else outputDir d)"

definition verifyByArduinoBuilder ::
  "env \<Rightarrow> device_context \<Rightarrow> string \<Rightarrow> string \<Rightarrow> world \<Rightarrow> (error + bool) \<times> world" where
  "verifyByArduinoBuilder E d boardDescriptor out w =
     (let w1 = emit (ChannelStart (''Verify sketch - '' @ to_string (sketch d))) w
      in case js_path_join (rootPath E) (sketch d) of
           Inl e \<Rightarrow> (Inl e, w1)
         | Inr appPath \<Rightarrow>
             (let st = settings E;
                  args1 = [''-compile'']
                    @ push_existing E ''-hardware''
                        [defaultPackagePath st, path_join [packagePath st, ''packages''],
                         path_join [sketchbookPath st, ''packages'']]
                    @ push_existing E ''-tools''
                        [path_join [arduinoPath st, ''tools-builder''],
                         path_join [defaultPackagePath st, ''tools'', ''avr''],
                         path_join [packagePath st, ''packages'']]
                    @ [''-built-in-libraries'', path_join [arduinoPath st, ''libraries'']]
                    @ push_existing E ''-libraries'' [path_join [sketchbookPath st, ''libraries'']]
                    @ [''-fqbn'', boardDescriptor];
                  (args2, w2) =
                     (if truthy (output_or out d) then
                        (let outputPath = path_join [to_string (rootPath E), to_string (output_or out d)]
                         in (args1 @ [''-build-path'', outputPath], emit (Mkdir outputPath) w1))
                      else
                        (args1, emit (ShowWarningMessage
                                  ''No output folder specified. Output to a temporary folder.'') w1));
                  args3 = args2 @ (if logLevel (vscode E) = ''verbose'' then [''-verbose''] else [])
                            @ [''-logger'', ''humantags'', appPath];
                  w3 = emit ChannelShow w2;
                  (r, w4) = util_spawn E (Some (builderPath st)) True args3 None w3
              in case r of
                   Inr _ \<Rightarrow>
                     (Inr True,
                      emit (ChannelEnd (''Finished verify sketch - '' @ to_string (sketch d) @ EOL)) w4)
                 | Inl code \<Rightarrow>
                     (Inr False, emit (ChannelError (''Exit with code='' @ show_int code @ EOL)) w4)))"

definition verifyByArduinoIde ::
  "env \<Rightarrow> device_context \<Rightarrow> string \<Rightarrow> string \<Rightarrow> world \<Rightarrow> (error + bool) \<times> world" where
  "verifyByArduinoIde E d boardDescriptor out w =
     (let w1 = emit (ChannelStart (''Verify sketch - '' @ to_string (sketch d))) w
      in case js_path_join (rootPath E) (sketch d) of
           Inl e \<Rightarrow> (Inl e, w1)
         | Inr appPath \<Rightarrow>
             (let args1 = [''--verify'', ''--board'', boardDescriptor, appPath]
                    @ (if logLevel (vscode E) = ''verbose'' then [''--verbose''] else []);
                  args2 = (if truthy (output_or out d) then
                             args1 @ [''--pref'', ''build.path=''
                                        @ path_join [to_string (rootPath E), to_string (output_or out d)]]
                           else args1);
                  w2 = emit ChannelShow w1;
                  (r, w3) = util_spawn E (Some (commandPath (settings E))) True args2 None w2
              in case r of
                   Inr _ \<Rightarrow>
                     (Inr True,
                      emit (ChannelEnd (''Finished verify sketch - '' @ to_string (sketch d) @ EOL)) w3)
                 | Inl code \<Rightarrow>
                     (Inr False, emit (ChannelError (''Exit with code='' @ show_int code @ EOL)) w3)))"

text \<open>
  \<open>verify\<close> resolves to the strategy's boolean, or to \<^verbatim>\<open>undefined\<close> (here \<open>None\<close>) when
  it returns before the dispatch.
\<close>

definition verify :: "env \<Rightarrow> string \<Rightarrow> world \<Rightarrow> (error + bool option) \<times> world" where
  "verify E out w =
     (let (boardDescriptor, w1) = getBoardBuildString E w
      in if falsy boardDescriptor then (Inr None, w1)
         else if falsy (rootPath E) then
           (Inr None, emit (ShowWarningMessage ''Cannot find the sketch file.'') w1)
         else
           (let (found, w2) = (if sketch_missing E (dc w1) then getMainSketch E w1 else (Inr (), w1))
            in case found of
                 Inl e \<Rightarrow> (Inl e, w2)
               | Inr _ \<Rightarrow>
                   (let w3 = emit SaveAll w2;
                        (done, w4) =
                           (if builder (vscode E) = ''command'' then
                              verifyByCommand E (dc w3) (to_string boardDescriptor) out w3
                            else if builder (vscode E) = ''arduino-builder'' then
                              verifyByArduinoBuilder E (dc w3) (to_string boardDescriptor) out w3
                            else verifyByArduinoIde E (dc w3) (to_string boardDescriptor) out w3)
                    in (map_sum id Some done, w4))))"

section \<open>Properties of traces\<close>

text \<open>
  A trace keeps the serial handle discipline when every attempt to open a port is followed
  at once by the stop of the same port.
\<close>

fun opens_closed :: "event list \<Rightarrow> bool" where
  "opens_closed [] = True"
| "opens_closed (SerialOpen p baud # es) =
     (case es of SerialStop q # rest \<Rightarrow> q = p \<and> opens_closed rest | _ \<Rightarrow> False)"
| "opens_closed (e # es) = opens_closed es"

fun is_open_attempt :: "event \<Rightarrow> bool" where
  "is_open_attempt (SerialOpen p baud) = True"
| "is_open_attempt e = False"

section \<open>A concrete installation\<close>

text \<open>
  An Arduino IDE under \<^verbatim>\<open>/opt/arduino\<close> with the built-in AVR platform, a Leonardo on
  \<^verbatim>\<open>COM3\<close> that asks for the 1200bps touch and for the wait for the upload port, and a
  workspace with one sketch.
\<close>

definition demo_settings :: arduino_settings where
  "demo_settings =
     \<lparr>commandPath = ''/opt/arduino/arduino'', builderPath = ''/opt/arduino/arduino-builder'',
      arduinoPath = ''/opt/arduino'', packagePath = ''/home/u/.arduino15'',
      defaultPackagePath = ''/opt/arduino/hardware'', sketchbookPath = ''/home/u/Arduino'',
      toolProperties = Map.empty\<rparr>"

definition demo_vscode :: vscode_settings where
  "demo_vscode =
     \<lparr>builder = ''arduino-builder'', logLevel = ''info'',
      uploadCommand = ''make upload'', verifyCommand = ''make''\<rparr>"

definition leonardo :: board_descriptor where
  "leonardo =
     \<lparr>getPackageName = ''arduino'', architecture = ''avr'', board = ''leonardo'',
      getBuildConfig = ''arduino:avr:leonardo''\<rparr>"

definition demo_env :: env where
  "demo_env =
     \<lparr>settings = demo_settings, vscode = demo_vscode, currentBoard = Some leonardo,
      rootPath = Str ''/ws'',
      fs = [''/opt/arduino/hardware/arduino/avr'' \<mapsto> Directory [''boards.txt'', ''platform.txt''],
            ''/ws/app.ino'' \<mapsto> File],
      spawn_exit = (\<lambda>cmd args. 0),
      list_at = (\<lambda>n. [PortInfo ''COM3'']),
      open_ok = (\<lambda>p. True),
      discovered_sketch = Str ''app.ino'',
      file_props = (\<lambda>path. if path = ''/opt/arduino/hardware/arduino/avr/boards.txt''
                              then [(''leonardo.upload.tool'', ''avrdude''),
                                    (''leonardo.upload.use_1200bps_touch'', ''true''),
                                    (''leonardo.upload.wait_for_upload_port'', ''true'')]
                              else []),
      splitArgs = (\<lambda>c. case c of Str s \<Rightarrow> [s] | _ \<Rightarrow> [])\<rparr>"

definition demo_world :: world where
  "demo_world =
     \<lparr>trace = [], list_calls = 0, listening = True, handles = 0, monitor_open = False,
      dc = \<lparr>sketch = Str ''app.ino'', port = Str ''COM3'', outputDir = Str ''build''\<rparr>\<rparr>"

definition touch_props :: properties where
  "touch_props =
     [''upload.use_1200bps_touch'' \<mapsto> Str ''true'',
      ''upload.wait_for_upload_port'' \<mapsto> Str ''true'']"

text \<open>
  Variations of the installation: the board leaves \<^verbatim>\<open>COM3\<close> at the reset and no port
  ever appears again; the port cannot be opened; the built-in platform path is a plain
  file while a user-installed platform exists; and ports \<^verbatim>\<open>A\<close> that vanish at the reset
  and come back under the same name at the second enumeration.
\<close>

definition unplugged_env :: env where
  "unplugged_env = demo_env\<lparr>list_at := (\<lambda>n. if n = 0 then [PortInfo ''COM3''] else [])\<rparr>"

definition busy_env :: env where
  "busy_env = demo_env\<lparr>open_ok := (\<lambda>p. False)\<rparr>"

definition shadowed_env :: env where
  "shadowed_env =
     demo_env\<lparr>fs := [''/opt/arduino/hardware/arduino/avr'' \<mapsto> File,
                     ''/home/u/.arduino15/packages/arduino/hardware/avr'' \<mapsto> Directory [''1.8.3'']]\<rparr>"

definition reboot_env :: env where
  "reboot_env = demo_env\<lparr>list_at := (\<lambda>n. if n = 0 then [] else [PortInfo ''A''])\<rparr>"

definition appear_env :: env where
  "appear_env =
     demo_env\<lparr>list_at := (\<lambda>n. if n = 0 then [PortInfo ''A''] else [PortInfo ''A'', PortInfo ''B''])\<rparr>"

section \<open>Installation: exit codes and the index refresh\<close>

lemma show_int_2: "show_int 2 = ''2''"
  by (simp add: show_int_def show_nat.simps)

text \<open>
  C1. For every install of a board package or of a library, exit code 1 of the toolchain
  subprocess is treated exactly as exit code 0: the same world results, whose trace ends
  in the success message and holds no error. Any other non-zero exit code ends in the
  error message that carries that code.
\<close>

theorem install_exit_code:
  "installBoard (E\<lparr>spawn_exit := \<lambda>cmd args. 1\<rparr>) p a v s w
     = installBoard (E\<lparr>spawn_exit := \<lambda>cmd args. 0\<rparr>) p a v s w
   \<and> installLibrary (E\<lparr>spawn_exit := \<lambda>cmd args. 1\<rparr>) p v s w
     = installLibrary (E\<lparr>spawn_exit := \<lambda>cmd args. 0\<rparr>) p v s w
   \<and> trace (installBoard (E\<lparr>spawn_exit := \<lambda>cmd args. 0\<rparr>) p a v s w)
     = trace w @ [ChannelShow,
         ChannelStart (if p = ''dummy'' \<and> a = [] \<and> v = [] then ''Update package index files...''
                       else ''Install package - '' @ p @ ''...''),
         Spawn (Some (commandPath (settings E))) s
           [''--install-boards'', p @ and_colon a @ and_colon v] None,
         ChannelEnd (if p = ''dummy'' \<and> a = [] \<and> v = [] then ''Updated package index files.''
                     else ''Installed board package - '' @ p @ EOL)]
   \<and> trace (installLibrary (E\<lparr>spawn_exit := \<lambda>cmd args. 0\<rparr>) p v s w)
     = trace w @ [ChannelShow,
         ChannelStart (if p = ''dummy'' \<and> v = [] then ''Update library index files...''
                       else ''Install library - '' @ p),
         Spawn (Some (commandPath (settings E))) s [''--install-library'', p @ and_colon v] None,
         ChannelEnd (if p = ''dummy'' \<and> v = [] then ''Updated library index files.''
                     else ''Installed library - '' @ p @ EOL)]
   \<and> (c \<noteq> 0 \<and> c \<noteq> 1 \<longrightarrow>
        trace (installBoard (E\<lparr>spawn_exit := \<lambda>cmd args. c\<rparr>) p a v s w)
          = trace w @ [ChannelShow,
              ChannelStart (if p = ''dummy'' \<and> a = [] \<and> v = [] then ''Update package index files...''
                            else ''Install package - '' @ p @ ''...''),
              Spawn (Some (commandPath (settings E))) s
                [''--install-boards'', p @ and_colon a @ and_colon v] None,
              ChannelError (''Exit with code='' @ show_int c @ EOL)]
        \<and> trace (installLibrary (E\<lparr>spawn_exit := \<lambda>cmd args. c\<rparr>) p v s w)
          = trace w @ [ChannelShow,
              ChannelStart (if p = ''dummy'' \<and> v = [] then ''Update library index files...''
                            else ''Install library - '' @ p),
              Spawn (Some (commandPath (settings E))) s [''--install-library'', p @ and_colon v] None,
              ChannelError (''Exit with code='' @ show_int c @ EOL)])"
  by (simp add: installBoard_def installLibrary_def util_spawn_def emit_def Let_def)

theorem install_exit_code_witness:
  "installBoard (demo_env\<lparr>spawn_exit := \<lambda>cmd args. 1\<rparr>) ''arduino'' ''avr'' ''1.6.21'' True demo_world
     = installBoard (demo_env\<lparr>spawn_exit := \<lambda>cmd args. 0\<rparr>) ''arduino'' ''avr'' ''1.6.21'' True demo_world
   \<and> trace (installBoard (demo_env\<lparr>spawn_exit := \<lambda>cmd args. 0\<rparr>) ''arduino'' ''avr'' ''1.6.21'' True demo_world)
     = [ChannelShow, ChannelStart ''Install package - arduino...'',
        Spawn (Some ''/opt/arduino/arduino'') True [''--install-boards'', ''arduino:avr:1.6.21''] None,
        ChannelEnd (''Installed board package - arduino'' @ EOL)]
   \<and> trace (installBoard (demo_env\<lparr>spawn_exit := \<lambda>cmd args. 2\<rparr>) ''arduino'' ''avr'' ''1.6.21'' True demo_world)
     = [ChannelShow, ChannelStart ''Install package - arduino...'',
        Spawn (Some ''/opt/arduino/arduino'') True [''--install-boards'', ''arduino:avr:1.6.21''] None,
        ChannelError (''Exit with code=2'' @ EOL)]
   \<and> trace (installLibrary (demo_env\<lparr>spawn_exit := \<lambda>cmd args. 2\<rparr>) ''Servo'' ''1.1.2'' True demo_world)
     = [ChannelShow, ChannelStart ''Install library - Servo'',
        Spawn (Some ''/opt/arduino/arduino'') True [''--install-library'', ''Servo:1.1.2''] None,
        ChannelError (''Exit with code=2'' @ EOL)]"
  using install_exit_code [where E = demo_env and p = "''arduino''" and a = "''avr''"
      and v = "''1.6.21''" and s = True and w = demo_world and c = 2]
    install_exit_code [where E = demo_env and p = "''Servo''" and a = "''avr''"
      and v = "''1.1.2''" and s = True and w = demo_world and c = 2]
  by (simp add: show_int_2 and_colon_def demo_env_def demo_settings_def demo_world_def)

text \<open>
  C6, as the claim states it, fails: an install with the empty package name, no
  architecture and no version announces the installation of a package (of a library),
  not the update of the index files.
\<close>

theorem empty_name_is_not_index_refresh:
  "trace (installBoard demo_env [] [] [] True demo_world)
     = [ChannelShow, ChannelStart ''Install package - ...'',
        Spawn (Some ''/opt/arduino/arduino'') True [''--install-boards'', []] None,
        ChannelEnd (''Installed board package - '' @ EOL)]
   \<and> trace (installLibrary demo_env [] [] True demo_world)
     = [ChannelShow, ChannelStart ''Install library - '',
        Spawn (Some ''/opt/arduino/arduino'') True [''--install-library'', []] None,
        ChannelEnd (''Installed library - '' @ EOL)]"
  by (simp add: installBoard_def installLibrary_def util_spawn_def emit_def Let_def and_colon_def
      demo_env_def demo_settings_def demo_world_def)

text \<open>
  C6, amended. The index refresh is the install of the package (library) named
  \<^verbatim>\<open>dummy\<close> with no version (and, for a board package, no architecture): the status text
  announces the update of the index files, and the exit code is handled as in every
  install: 0 and 1 end in the success message, any other code in the error message that
  carries the code.
\<close>

theorem dummy_is_index_refresh:
  "trace (installBoard (E\<lparr>spawn_exit := \<lambda>cmd args. c\<rparr>) ''dummy'' [] [] s w)
     = trace w @ [ChannelShow, ChannelStart ''Update package index files...'',
         Spawn (Some (commandPath (settings E))) s [''--install-boards'', ''dummy''] None,
         (if c = 0 \<or> c = 1 then ChannelEnd ''Updated package index files.''
          else ChannelError (''Exit with code='' @ show_int c @ EOL))]
   \<and> trace (installLibrary (E\<lparr>spawn_exit := \<lambda>cmd args. c\<rparr>) ''dummy'' [] s w)
     = trace w @ [ChannelShow, ChannelStart ''Update library index files...'',
         Spawn (Some (commandPath (settings E))) s [''--install-library'', ''dummy''] None,
         (if c = 0 \<or> c = 1 then ChannelEnd ''Updated library index files.''
          else ChannelError (''Exit with code='' @ show_int c @ EOL))]
   \<and> (\<not> (p = ''dummy'' \<and> a = [] \<and> v = []) \<longrightarrow>
        trace (installBoard (E\<lparr>spawn_exit := \<lambda>cmd args. c\<rparr>) p a v s w)
          = trace w @ [ChannelShow, ChannelStart (''Install package - '' @ p @ ''...''),
              Spawn (Some (commandPath (settings E))) s
                [''--install-boards'', p @ and_colon a @ and_colon v] None,
              (if c = 0 \<or> c = 1 then ChannelEnd (''Installed board package - '' @ p @ EOL)
               else ChannelError (''Exit with code='' @ show_int c @ EOL))])
   \<and> (\<not> (p = ''dummy'' \<and> v = []) \<longrightarrow>
        trace (installLibrary (E\<lparr>spawn_exit := \<lambda>cmd args. c\<rparr>) p v s w)
          = trace w @ [ChannelShow, ChannelStart (''Install library - '' @ p),
              Spawn (Some (commandPath (settings E))) s [''--install-library'', p @ and_colon v] None,
              (if c = 0 \<or> c = 1 then ChannelEnd (''Installed library - '' @ p @ EOL)
               else ChannelError (''Exit with code='' @ show_int c @ EOL))])"
  by (auto simp add: installBoard_def installLibrary_def util_spawn_def emit_def Let_def and_colon_def)

theorem dummy_is_index_refresh_witness:
  "trace (installBoard (demo_env\<lparr>spawn_exit := \<lambda>cmd args. 1\<rparr>) ''dummy'' [] [] True demo_world)
     = [ChannelShow, ChannelStart ''Update package index files...'',
        Spawn (Some ''/opt/arduino/arduino'') True [''--install-boards'', ''dummy''] None,
        ChannelEnd ''Updated package index files.'']
   \<and> trace (installLibrary (demo_env\<lparr>spawn_exit := \<lambda>cmd args. 2\<rparr>) ''dummy'' [] True demo_world)
     = [ChannelShow, ChannelStart ''Update library index files...'',
        Spawn (Some ''/opt/arduino/arduino'') True [''--install-library'', ''dummy''] None,
        ChannelError (''Exit with code=2'' @ EOL)]
   \<and> trace (installBoard (demo_env\<lparr>spawn_exit := \<lambda>cmd args. 1\<rparr>) [] [] [] True demo_world)
     = [ChannelShow, ChannelStart ''Install package - ...'',
        Spawn (Some ''/opt/arduino/arduino'') True [''--install-boards'', []] None,
        ChannelEnd (''Installed board package - '' @ EOL)]
   \<and> trace (installLibrary (demo_env\<lparr>spawn_exit := \<lambda>cmd args. 2\<rparr>) ''Servo'' [] True demo_world)
     = [ChannelShow, ChannelStart ''Install library - Servo'',
        Spawn (Some ''/opt/arduino/arduino'') True [''--install-library'', ''Servo''] None,
        ChannelError (''Exit with code=2'' @ EOL)]"
  using dummy_is_index_refresh [where E = demo_env and c = 1 and s = True and w = demo_world
      and p = "[]" and a = "[]" and v = "[]"]
    dummy_is_index_refresh [where E = demo_env and c = 2 and s = True and w = demo_world
      and p = "''Servo''" and a = "[]" and v = "[]"]
  by (simp add: show_int_2 and_colon_def demo_env_def demo_settings_def demo_world_def)


section \<open>Verify: subprocess failures and the missing board\<close>

text \<open>
  C8. In each of the three verify strategies the failure of the spawned subprocess is
  caught: the call does not throw, its result is \<open>False\<close> for a non-zero exit code \<open>c\<close>
  and \<open>True\<close> for exit code 0, and on a failure the last effect is the error line of the
  output channel that carries the exit code. The builder and IDE strategies compute the
  sketch path first, which needs the workspace root and the sketch to be strings, as
  \<open>verify\<close> has established when it dispatches.
\<close>

theorem verify_strategies_catch_exit_code:
  assumes "rootPath E = Str r" and "sketch d = Str sk"
  shows "fst (verifyByCommand (E\<lparr>spawn_exit := \<lambda>cmd args. c\<rparr>) d bd out w) = Inr (c = 0)
    \<and> fst (verifyByArduinoBuilder (E\<lparr>spawn_exit := \<lambda>cmd args. c\<rparr>) d bd out w) = Inr (c = 0)
    \<and> fst (verifyByArduinoIde (E\<lparr>spawn_exit := \<lambda>cmd args. c\<rparr>) d bd out w) = Inr (c = 0)
    \<and> (c \<noteq> 0 \<longrightarrow>
         last (trace (snd (verifyByCommand (E\<lparr>spawn_exit := \<lambda>cmd args. c\<rparr>) d bd out w)))
           = ChannelError (''Exit with code='' @ show_int c @ EOL)
         \<and> last (trace (snd (verifyByArduinoBuilder (E\<lparr>spawn_exit := \<lambda>cmd args. c\<rparr>) d bd out w)))
           = ChannelError (''Exit with code='' @ show_int c @ EOL)
         \<and> last (trace (snd (verifyByArduinoIde (E\<lparr>spawn_exit := \<lambda>cmd args. c\<rparr>) d bd out w)))
           = ChannelError (''Exit with code='' @ show_int c @ EOL))"
proof -
  have cmd: "fst (verifyByCommand (E\<lparr>spawn_exit := \<lambda>cmd args. c\<rparr>) d bd out w) = Inr (c = 0)"
    by (simp add: verifyByCommand_def util_spawn_def emit_def Let_def)
  have bld: "fst (verifyByArduinoBuilder (E\<lparr>spawn_exit := \<lambda>cmd args. c\<rparr>) d bd out w) = Inr (c = 0)"
    using assms by (simp add: verifyByArduinoBuilder_def util_spawn_def emit_def Let_def split_beta)
  have ide: "fst (verifyByArduinoIde (E\<lparr>spawn_exit := \<lambda>cmd args. c\<rparr>) d bd out w) = Inr (c = 0)"
    using assms by (simp add: verifyByArduinoIde_def util_spawn_def emit_def Let_def)
  have cmd_err: "last (trace (snd (verifyByCommand (E\<lparr>spawn_exit := \<lambda>cmd args. c\<rparr>) d bd out w)))
      = ChannelError (''Exit with code='' @ show_int c @ EOL)" if "c \<noteq> 0"
    using that by (simp add: verifyByCommand_def util_spawn_def emit_def Let_def)
  have bld_err: "last (trace (snd (verifyByArduinoBuilder (E\<lparr>spawn_exit := \<lambda>cmd args. c\<rparr>) d bd out w)))
      = ChannelError (''Exit with code='' @ show_int c @ EOL)" if "c \<noteq> 0"
    using that assms
    by (simp add: verifyByArduinoBuilder_def util_spawn_def emit_def Let_def split_beta)
  have ide_err: "last (trace (snd (verifyByArduinoIde (E\<lparr>spawn_exit := \<lambda>cmd args. c\<rparr>) d bd out w)))
      = ChannelError (''Exit with code='' @ show_int c @ EOL)" if "c \<noteq> 0"
    using that assms by (simp add: verifyByArduinoIde_def util_spawn_def emit_def Let_def)
  show ?thesis
    using cmd bld ide cmd_err bld_err ide_err by blast
qed

theorem verify_strategies_catch_exit_code_witness:
  "fst (verifyByCommand (demo_env\<lparr>spawn_exit := \<lambda>cmd args. 2\<rparr>) (dc demo_world)
          ''arduino:avr:leonardo'' [] demo_world) = Inr False
   \<and> fst (verifyByArduinoBuilder (demo_env\<lparr>spawn_exit := \<lambda>cmd args. 2\<rparr>) (dc demo_world)
          ''arduino:avr:leonardo'' [] demo_world) = Inr False
   \<and> fst (verifyByArduinoIde (demo_env\<lparr>spawn_exit := \<lambda>cmd args. 2\<rparr>) (dc demo_world)
          ''arduino:avr:leonardo'' [] demo_world) = Inr False
   \<and> last (trace (snd (verifyByArduinoBuilder (demo_env\<lparr>spawn_exit := \<lambda>cmd args. 2\<rparr>) (dc demo_world)
          ''arduino:avr:leonardo'' [] demo_world))) = ChannelError (''Exit with code=2'' @ EOL)"
proof -
  have r: "rootPath demo_env = Str ''/ws''" and s: "sketch (dc demo_world) = Str ''app.ino''"
    by (simp_all add: demo_env_def demo_world_def)
  show ?thesis
    using verify_strategies_catch_exit_code [OF r s, where c = 2 and bd = "''arduino:avr:leonardo''"
        and out = "[]" and w = demo_world]
    by (simp add: show_int_2)
qed

text \<open>
  C9. With no board selected, \<open>verify\<close> returns at once: it resolves to \<^verbatim>\<open>undefined\<close>,
  and the only effect is the user error of \<open>getBoardBuildString\<close>. No subprocess is
  spawned and nothing else of the world changes.
\<close>

theorem verify_without_board:
  assumes "currentBoard E = None"
  shows "verify E out w = (Inr None, emit (NotifyUserError ''getBoardBuildString'' NO_BOARD_SELECTED) w)
    \<and> trace (snd (verify E out w)) = trace w @ [NotifyUserError ''getBoardBuildString'' NO_BOARD_SELECTED]"
  using assms by (simp add: verify_def getBoardBuildString_def emit_def)

theorem verify_without_board_witness:
  "verify (demo_env\<lparr>currentBoard := None\<rparr>) [] demo_world
     = (Inr None, demo_world\<lparr>trace := [NotifyUserError ''getBoardBuildString'' NO_BOARD_SELECTED]\<rparr>)"
proof -
  have "currentBoard (demo_env\<lparr>currentBoard := None\<rparr>) = None" by simp
  from verify_without_board [OF this, of "[]" demo_world] show ?thesis
    by (simp add: emit_def demo_world_def)
qed

section \<open>Pattern-driven upload without an output directory\<close>

text \<open>
  C10. In the pattern-driven upload, when the device context has no output directory,
  the strategy returns without throwing after it has loaded \<^verbatim>\<open>platform.txt\<close> and
  \<^verbatim>\<open>boards.txt\<close> of the resolved platform and has shown the error message; these three
  effects are all that happens: the serial monitor is not closed, no port is enumerated or
  opened, and no subprocess is spawned. (When the platform path does not resolve, the
  strategy has already returned with its own error message, with no other effect.)
\<close>

theorem uploadByPattern_without_output:
  assumes "falsy (outputDir d)"
  shows "(resolvePackagePath E = Inr (Some packageDir) \<longrightarrow>
            uploadByPattern E d bd w =
              (Inr (), w\<lparr>trace := trace w @
                 [LoadFile (path_join [packageDir, ''platform.txt'']),
                  LoadFile (path_join [packageDir, ''boards.txt'']),
                  ShowErrorMessage ''No output folder specified. Cannot find binary.'']\<rparr>))
    \<and> (resolvePackagePath E = Inr None \<longrightarrow>
            uploadByPattern E d bd w =
              (Inr (), w\<lparr>trace := trace w @ [ShowErrorMessage ''Cannot found properties for upload.'']\<rparr>))"
proof -
  have "currentBoard E \<noteq> None" if "resolvePackagePath E = Inr (Some packageDir)"
    using that by (cases "currentBoard E") (simp_all add: resolvePackagePath_def)
  then show ?thesis
    using assms
    by (auto simp add: uploadByPattern_def loadFile_def emit_def Let_def split: option.splits)
qed

theorem uploadByPattern_without_output_witness:
  "uploadByPattern demo_env \<lparr>sketch = Str ''app.ino'', port = Str ''COM3'', outputDir = Undefined\<rparr>
       ''arduino:avr:leonardo'' demo_world =
     (Inr (), demo_world\<lparr>trace :=
        [LoadFile ''/opt/arduino/hardware/arduino/avr/platform.txt'',
         LoadFile ''/opt/arduino/hardware/arduino/avr/boards.txt'',
         ShowErrorMessage ''No output folder specified. Cannot find binary.'']\<rparr>)"
proof -
  have f: "falsy (outputDir \<lparr>sketch = Str ''app.ino'', port = Str ''COM3'', outputDir = Undefined\<rparr>)"
    by simp
  have r: "resolvePackagePath demo_env = Inr (Some ''/opt/arduino/hardware/arduino/avr'')"
    by (simp add: resolvePackagePath_def demo_env_def demo_settings_def leonardo_def path_join_def
        lstatSync_def member_truthy_def)
  show ?thesis
    using uploadByPattern_without_output [OF f, where E = demo_env
        and packageDir = "''/opt/arduino/hardware/arduino/avr''" and w = demo_world
        and bd = "''arduino:avr:leonardo''"] r
    by (simp add: path_join_def demo_world_def)
qed

section \<open>Platform path resolution\<close>

text \<open>
  C5. The claim asks for the built-in candidate exactly when it exists and is a
  directory. The source reads the member \<^verbatim>\<open>stat.isDirectory\<close> without calling it, so the
  test passes for every path that exists: here the built-in candidate is a plain file, a
  user-installed platform \<^verbatim>\<open>1.8.3\<close> exists, and the built-in path is returned.
\<close>

theorem resolvePackagePath_returns_plain_file:
  "lstatSync shadowed_env ''/opt/arduino/hardware/arduino/avr'' = Inr (Stats False)
   \<and> readdirSync shadowed_env ''/home/u/.arduino15/packages/arduino/hardware/avr'' = Inr [''1.8.3'']
   \<and> resolvePackagePath shadowed_env = Inr (Some ''/opt/arduino/hardware/arduino/avr'')"
  by (simp add: resolvePackagePath_def shadowed_env_def demo_env_def demo_settings_def leonardo_def
      path_join_def lstatSync_def readdirSync_def member_truthy_def)


section \<open>Serial port negotiation\<close>

lemma list_calls_step [simp]:
  "list_calls (delay ms w) = list_calls w"
  "list_calls (snd (SerialPortCtrl_list E w)) = Suc (list_calls w)"
  "fst (SerialPortCtrl_list E w) = list_at E (list_calls w)"
  by (simp_all add: delay_def emit_def SerialPortCtrl_list_def)

text \<open>
  The loop after \<open>j\<close> rounds: when the next \<open>k\<close> enumerations show nothing new against the
  enumeration before them and the fallback does not fire, and enumeration \<open>k\<close> shows a new
  port, that port is the result.
\<close>

lemma loop_first_new:
  assumes "j + k < 40"
    and "\<And>i. i < k \<Longrightarrow>
           first_new (if i = 0 then b else list_at E (list_calls w + i - 1))
             (list_at E (list_calls w + i)) = None"
    and "\<And>i. i < k \<Longrightarrow> 5000 \<le> 250 * Suc (j + i) \<Longrightarrow>
           \<not> list_ex (\<lambda>p. Str (comName p) = up) (list_at E (list_calls w + i))"
    and "first_new (if k = 0 then b else list_at E (list_calls w + k - 1))
           (list_at E (list_calls w + k)) = Some p"
  shows "fst (waitForUploadPort_loop E up b (250 * j) w) = Str (comName p)"
  using assms
proof (induction k arbitrary: j b w)
  case 0
  then show ?case
    by (simp add: waitForUploadPort_loop.simps[of E up b "250 * j" w] Let_def)
next
  case (Suc k)
  let ?now = "list_at E (list_calls w)"
  let ?w2 = "delay 250 (snd (SerialPortCtrl_list E w))"
  have none: "first_new b ?now = None"
    using Suc.prems(2)[of 0] by simp
  have nofb: "\<not> (5000 \<le> 250 * j + 250 \<and> list_ex (\<lambda>p. Str (comName p) = up) ?now)"
    using Suc.prems(3)[of 0] by simp
  have step: "waitForUploadPort_loop E up b (250 * j) w =
              waitForUploadPort_loop E up ?now (250 * Suc j) ?w2"
    using Suc.prems(1) none nofb
    by (subst waitForUploadPort_loop.simps) (auto simp add: Let_def add.commute)
  have "fst (waitForUploadPort_loop E up ?now (250 * Suc j) ?w2) = Str (comName p)"
  proof (rule Suc.IH)
    show "Suc j + k < 40" using Suc.prems(1) by simp
  next
    fix i assume "i < k"
    then show "first_new (if i = 0 then ?now else list_at E (list_calls ?w2 + i - 1))
                 (list_at E (list_calls ?w2 + i)) = None"
      using Suc.prems(2)[of "Suc i"] by (cases i) simp_all
  next
    fix i assume "i < k" "5000 \<le> 250 * Suc (Suc j + i)"
    then show "\<not> list_ex (\<lambda>p. Str (comName p) = up) (list_at E (list_calls ?w2 + i))"
      using Suc.prems(3)[of "Suc i"] by simp
  next
    show "first_new (if k = 0 then ?now else list_at E (list_calls ?w2 + k - 1))
            (list_at E (list_calls ?w2 + k)) = Some p"
      using Suc.prems(4) by (cases k) simp_all
  qed
  with step show ?case by simp
qed

lemma first_new_Some:
  "first_new b now = Some p \<Longrightarrow> p \<in> set now \<and> \<not> list_ex (\<lambda>q. comName q = comName p) b"
  by (auto simp: first_new_def find_Some_iff)

text \<open>
  C3, as the claim states it, fails: the snapshot taken when the reset began holds \<^verbatim>\<open>A\<close>,
  the first enumeration is empty and the second holds \<^verbatim>\<open>A\<close> again; the wait returns
  \<^verbatim>\<open>A\<close>, which the snapshot has. (The upload port is \<^verbatim>\<open>COM9\<close>, so the result is not the
  five-second fallback.)
\<close>

theorem waitForUploadPort_returns_port_of_snapshot:
  "fst (waitForUploadPort reboot_env (Str ''COM9'') [PortInfo ''A''] demo_world) = Str ''A''
   \<and> list_ex (\<lambda>b. comName b = ''A'') [PortInfo ''A'']"
proof -
  have "fst (waitForUploadPort_loop reboot_env (Str ''COM9'') [PortInfo ''A''] (250 * 0) demo_world)
          = Str (comName (PortInfo ''A''))"
    by (rule loop_first_new[where k = 1])
       (simp_all add: reboot_env_def demo_env_def demo_world_def first_new_def)
  then show ?thesis by (simp add: waitForUploadPort_def)
qed

text \<open>
  C3, amended. The wait returns the first device identifier that is present in a newly
  polled enumeration but absent from the enumeration it is compared with: the snapshot
  taken when the reset began for the first poll, the previous poll for every later one.
  Poll \<open>k\<close> (of the 40 polls of the window) decides when no earlier poll showed a new
  port and the fallback did not fire. In particular (\<open>k = 0\<close>) with the snapshot \<^verbatim>\<open>{A}\<close>
  and the first poll \<^verbatim>\<open>{B}\<close> the result is \<^verbatim>\<open>B\<close>.
\<close>

theorem waitForUploadPort_first_new_port:
  assumes "k < 40"
    and "\<And>i. i < k \<Longrightarrow>
           first_new (if i = 0 then beforePorts else list_at E (list_calls w + i - 1))
             (list_at E (list_calls w + i)) = None"
    and "\<And>i. i < k \<Longrightarrow> 5000 \<le> 250 * Suc i \<Longrightarrow>
           \<not> list_ex (\<lambda>p. Str (comName p) = uploadPort) (list_at E (list_calls w + i))"
    and "first_new (if k = 0 then beforePorts else list_at E (list_calls w + k - 1))
           (list_at E (list_calls w + k)) = Some p"
  shows "fst (waitForUploadPort E uploadPort beforePorts w) = Str (comName p)
         \<and> p \<in> set (list_at E (list_calls w + k))
         \<and> \<not> list_ex (\<lambda>b. comName b = comName p)
               (if k = 0 then beforePorts else list_at E (list_calls w + k - 1))"
proof -
  have "fst (waitForUploadPort_loop E uploadPort beforePorts (250 * 0) w) = Str (comName p)"
    by (rule loop_first_new[where k = k]) (use assms in simp_all)
  then show ?thesis
    using first_new_Some[OF assms(4)] by (simp add: waitForUploadPort_def)
qed

theorem waitForUploadPort_first_new_port_witness:
  "fst (waitForUploadPort (demo_env\<lparr>list_at := \<lambda>n. [PortInfo ''B'']\<rparr>) (Str ''A'') [PortInfo ''A'']
          demo_world) = Str ''B''
   \<and> fst (waitForUploadPort appear_env (Str ''A'') [PortInfo ''A''] demo_world) = Str ''B''"
proof -
  have "fst (waitForUploadPort (demo_env\<lparr>list_at := \<lambda>n. [PortInfo ''B'']\<rparr>) (Str ''A'') [PortInfo ''A'']
          demo_world) = Str (comName (PortInfo ''B''))"
    using waitForUploadPort_first_new_port [where k = 0 and E = "demo_env\<lparr>list_at := \<lambda>n. [PortInfo ''B'']\<rparr>"
        and w = demo_world and beforePorts = "[PortInfo ''A'']" and p = "PortInfo ''B''"
        and uploadPort = "Str ''A''"]
    by (simp add: first_new_def)
  moreover have "fst (waitForUploadPort appear_env (Str ''A'') [PortInfo ''A''] demo_world)
          = Str (comName (PortInfo ''B''))"
    using waitForUploadPort_first_new_port [where k = 1 and E = appear_env
        and w = demo_world and beforePorts = "[PortInfo ''A'']" and p = "PortInfo ''B''"
        and uploadPort = "Str ''A''"]
    by (simp add: first_new_def appear_env_def demo_env_def demo_world_def)
  ultimately show ?thesis by simp
qed


section \<open>The 1200bps touch and the serial handle\<close>

text \<open>
  What the wait loop leaves alone: it opens no port, holds no handle and does not touch
  the device-hotplug listener.
\<close>

lemma loop_frame:
  "handles (snd (waitForUploadPort_loop E up b e w)) = handles w \<and>
   listening (snd (waitForUploadPort_loop E up b e w)) = listening w \<and>
   (\<exists>es. trace (snd (waitForUploadPort_loop E up b e w)) = trace w @ es \<and>
         (\<forall>x\<in>set es. \<not> is_open_attempt x))"
proof (induction E up b e w rule: waitForUploadPort_loop.induct)
  case (1 E up b e w)
  let ?now = "list_at E (list_calls w)"
  let ?w1 = "snd (SerialPortCtrl_list E w)"
  let ?w2 = "delay 250 ?w1"
  have w1: "handles ?w1 = handles w" "listening ?w1 = listening w" "trace ?w1 = trace w @ [ListPorts]"
    by (simp_all add: SerialPortCtrl_list_def emit_def)
  have w2: "handles ?w2 = handles w" "listening ?w2 = listening w"
    "trace ?w2 = trace w @ [ListPorts, Delay 250]"
    by (simp_all add: SerialPortCtrl_list_def emit_def delay_def)
  show ?case
  proof (cases "e < 10000")
    case False
    then show ?thesis by (simp add: waitForUploadPort_loop.simps[of E up b e w])
  next
    case True
    show ?thesis
    proof (cases "first_new b ?now")
      case (Some p)
      then show ?thesis using True w1
        by (simp add: waitForUploadPort_loop.simps[of E up b e w] Let_def)
    next
      case None
      show ?thesis
      proof (cases "5000 \<le> e + 250 \<and> list_ex (\<lambda>p. Str (comName p) = up) ?now")
        case fb: True
        then show ?thesis using True None w2
          by (simp add: waitForUploadPort_loop.simps[of E up b e w] Let_def)
      next
        case nfb: False
        let ?r = "waitForUploadPort_loop E up ?now (e + 250) ?w2"
        have IH: "handles (snd ?r) = handles ?w2 \<and> listening (snd ?r) = listening ?w2 \<and>
           (\<exists>es. trace (snd ?r) = trace ?w2 @ es \<and> (\<forall>x\<in>set es. \<not> is_open_attempt x))"
          using True None nfb by (intro "1.IH"[where x = ?now and xa = ?w1]) simp_all
        then obtain es where es: "trace (snd ?r) = trace ?w2 @ es"
          "\<forall>x\<in>set es. \<not> is_open_attempt x" by blast
        have eq: "waitForUploadPort_loop E up b e w = ?r"
          using True None nfb by (subst waitForUploadPort_loop.simps) (auto simp add: Let_def)
        have "trace (snd (waitForUploadPort_loop E up b e w)) = trace w @ ([ListPorts, Delay 250] @ es)"
          using es(1) w2 eq by simp
        moreover have "\<forall>x\<in>set ([ListPorts, Delay 250] @ es). \<not> is_open_attempt x"
          using es(2) by simp
        ultimately show ?thesis using IH w2 eq by metis
      qed
    qed
  qed
qed

lemma opens_closed_skip:
  "\<forall>x\<in>set es. \<not> is_open_attempt x \<Longrightarrow> opens_closed (es @ rest) = opens_closed rest"
proof (induction es)
  case Nil
  then show ?case by simp
next
  case (Cons x es)
  then show ?case by (cases x) simp_all
qed

text \<open>
  C7. In the reset step the stop of the serial port runs after every attempt to open it,
  whether the open succeeds or fails: in the effects of \<open>prepareUploadPort\<close> each open is
  followed at once by the stop of the same port, and the call leaves as many handles open
  as it found. When the open fails, the stop is the last effect before the failure is
  passed on.
\<close>

theorem touch_always_stops:
  "handles (snd (prepareUploadPort E ps d v w)) = handles w
   \<and> opens_closed (drop (length (trace w)) (trace (snd (prepareUploadPort E ps d v w))))
   \<and> (props_get ps ''upload.use_1200bps_touch'' = Str ''true''
        \<and> list_ex (\<lambda>p. Str (comName p) = port d) (list_at E (list_calls w))
        \<and> \<not> open_ok E (port d) \<longrightarrow>
      fst (prepareUploadPort E ps d v w) = Inl SerialOpenError
      \<and> trace (snd (prepareUploadPort E ps d v w)) =
          trace w @ [ListPorts]
            @ (if v then [ChannelInfo (''Forcing reset using 1200bps open/close on port ''
                                       @ to_string (port d))] else [])
            @ [SerialOpen (port d) 1200, SerialStop (port d)])"
proof -
  define new where
    "new = (\<lambda>b W. drop (length (trace W)) (trace (snd (waitForUploadPort_loop E (port d) b 0 W))))"
  have T: "trace (snd (waitForUploadPort_loop E (port d) b 0 W)) = trace W @ new b W" for b W
    using loop_frame[of E "port d" b 0 W] by (auto simp add: new_def)
  have N: "\<forall>x\<in>set (new b W). \<not> is_open_attempt x" for b W
    using loop_frame[of E "port d" b 0 W] by (auto simp add: new_def)
  have H: "handles (snd (waitForUploadPort_loop E (port d) b 0 W)) = handles W" for b W
    using loop_frame[of E "port d" b 0 W] by simp
  have S: "opens_closed (new b W @ rest) = opens_closed rest" for b W rest
    by (rule opens_closed_skip) (rule N)
  show ?thesis
    by (simp add: prepareUploadPort_def SerialPortCtrl_list_def SerialPortCtrl_open_def
        SerialPortCtrl_stop_def emit_def delay_def waitForUploadPort_def Let_def split_beta T H S)
qed

theorem touch_always_stops_witness:
  "fst (prepareUploadPort busy_env touch_props (dc demo_world) True demo_world) = Inl SerialOpenError
   \<and> trace (snd (prepareUploadPort busy_env touch_props (dc demo_world) True demo_world)) =
       [ListPorts, ChannelInfo ''Forcing reset using 1200bps open/close on port COM3'',
        SerialOpen (Str ''COM3'') 1200, SerialStop (Str ''COM3'')]
   \<and> handles (snd (prepareUploadPort busy_env touch_props (dc demo_world) True demo_world)) = 0"
  using touch_always_stops [where E = busy_env and ps = touch_props and d = "dc demo_world"
      and v = True and w = demo_world]
  by (simp add: busy_env_def demo_env_def demo_world_def touch_props_def props_get_def)


section \<open>The wait that times out, and the paused listener\<close>

text \<open>When no port is enumerated any more, the wait runs out and yields \<^verbatim>\<open>undefined\<close>.\<close>

lemma loop_all_empty:
  "(\<And>n. list_calls w \<le> n \<Longrightarrow> list_at E n = []) \<Longrightarrow>
   fst (waitForUploadPort_loop E up b e w) = Undefined"
proof (induction E up b e w rule: waitForUploadPort_loop.induct)
  case (1 E up b e w)
  show ?case
  proof (cases "e < 10000")
    case False
    then show ?thesis by (simp add: waitForUploadPort_loop.simps[of E up b e w])
  next
    case True
    have now: "list_at E (list_calls w) = []" using "1.prems" by simp
    have "fst (waitForUploadPort_loop E up [] (e + 250) (delay 250 (snd (SerialPortCtrl_list E w))))
            = Undefined"
      using True now "1.prems"
      by (intro "1.IH"[where x="[]"]) (simp_all add: first_new_def)
    then show ?thesis
      using True now
      by (simp add: waitForUploadPort_loop.simps[of E up b e w] first_new_def Let_def)
  qed
qed

lemma prepare_timeout:
  assumes "props_get ps ''upload.use_1200bps_touch'' = Str ''true''"
    and "props_get ps ''upload.wait_for_upload_port'' = Str ''true''"
    and "open_ok E (port d)"
    and "\<And>n. list_calls w < n \<Longrightarrow> list_at E n = []"
  shows "fst (prepareUploadPort E ps d v w) = Inr Undefined"
proof -
  have "fst (waitForUploadPort_loop E up b e w') = Undefined"
    if "list_calls w' = Suc (list_calls w)" for up b e w'
    by (rule loop_all_empty) (use that assms(4) in simp)
  then show ?thesis
    using assms(1-3)
    by (simp add: prepareUploadPort_def SerialPortCtrl_list_def SerialPortCtrl_open_def
      SerialPortCtrl_stop_def emit_def delay_def waitForUploadPort_def Let_def split_beta)
qed

lemma prepare_listening:
  "listening (snd (prepareUploadPort E ps d v w)) = listening w"
proof -
  have "listening (snd (waitForUploadPort_loop E (port d) b 0 W)) = listening W" for b W
    using loop_frame[of E "port d" b 0 W] by simp
  then show ?thesis
    by (simp add: prepareUploadPort_def SerialPortCtrl_list_def SerialPortCtrl_open_def
        SerialPortCtrl_stop_def emit_def delay_def waitForUploadPort_def Let_def split_beta)
qed

lemma resolve_demo:
  "resolvePackagePath (demo_env\<lparr>list_at := f, open_ok := g\<rparr>)
     = Inr (Some ''/opt/arduino/hardware/arduino/avr'')"
  by (simp add: resolvePackagePath_def demo_env_def demo_settings_def leonardo_def path_join_def
      lstatSync_def member_truthy_def)

lemma dc_pauseListening [simp]: "dc (pauseListening w) = dc w"
  by (simp add: pauseListening_def emit_def)

lemma unplugged_fields:
  "currentBoard unplugged_env = Some leonardo" "rootPath unplugged_env = Str ''/ws''"
  "fs unplugged_env ''/ws/app.ino'' = Some File" "vscode unplugged_env = demo_vscode"
  "settings unplugged_env = demo_settings" "file_props unplugged_env = file_props demo_env"
  "splitArgs unplugged_env = splitArgs demo_env" "spawn_exit unplugged_env = spawn_exit demo_env"
  by (simp_all add: unplugged_env_def demo_env_def)

lemma uploadByPattern_unplugged:
  "fst (uploadByPattern unplugged_env (dc demo_world) bd (pauseListening demo_world)) = Inl TypeError
   \<and> listening (snd (uploadByPattern unplugged_env (dc demo_world) bd (pauseListening demo_world)))
       = False"
proof -
  have r: "resolvePackagePath unplugged_env = Inr (Some ''/opt/arduino/hardware/arduino/avr'')"
    using resolve_demo[where f = "list_at unplugged_env" and g = "open_ok demo_env"]
    by (simp add: unplugged_env_def)
  have p: "fst (prepareUploadPort unplugged_env ps d v w) = Inr Undefined"
    if "props_get ps ''upload.use_1200bps_touch'' = Str ''true''"
      "props_get ps ''upload.wait_for_upload_port'' = Str ''true''" "list_calls w = 0" for ps d v w
    by (rule prepare_timeout) (use that in \<open>simp_all add: unplugged_env_def demo_env_def\<close>)
  show ?thesis
    by (simp add: uploadByPattern_def r p prepare_listening loadFile_def closeSerialMonitor_def
      pauseListening_def emit_def props_get_def props_set_def props_merge_def extractWithPrefix_def
      map_add_def unplugged_fields demo_env_def demo_world_def demo_vscode_def leonardo_def
      demo_settings_def path_join_def path_basename_def Let_def split_beta)
qed

lemma upload_unplugged:
  "fst (upload unplugged_env demo_world) = Inl TypeError
   \<and> listening (snd (upload unplugged_env demo_world)) = False"
proof -
  have "sketch (dc demo_world) = Str ''app.ino''" "port (dc demo_world) = Str ''COM3''"
    by (simp_all add: demo_world_def)
  then show ?thesis
    by (simp add: upload_def getBoardBuildString_def sketch_missing_def fileExistsSync_def
        unplugged_fields demo_vscode_def leonardo_def path_join_def uploadByPattern_unplugged
        Let_def split_beta)
qed

text \<open>
  C2. The claim asks for the originally configured port when the wait times out. The
  source tests \<^verbatim>\<open>actualUploadPort === null\<close>, which \<^verbatim>\<open>undefined\<close> (the result of the
  wait that ran out) does not satisfy: with the touch and the wait enabled, the board on
  \<^verbatim>\<open>COM3\<close> at the reset and no port enumerated afterwards, the negotiated port is
  \<^verbatim>\<open>undefined\<close>, not \<^verbatim>\<open>COM3\<close>, and the upload throws a \<^verbatim>\<open>TypeError\<close> at
  \<^verbatim>\<open>actualUploadPort.startsWith\<close> instead of proceeding.
\<close>

theorem timed_out_wait_yields_undefined:
  "fst (prepareUploadPort unplugged_env touch_props (dc demo_world) False demo_world) = Inr Undefined
   \<and> port (dc demo_world) = Str ''COM3''
   \<and> fst (upload unplugged_env demo_world) = Inl TypeError"
proof -
  have "fst (prepareUploadPort unplugged_env touch_props (dc demo_world) False demo_world)
          = Inr Undefined"
    by (rule prepare_timeout)
       (simp_all add: touch_props_def props_get_def unplugged_env_def demo_env_def demo_world_def)
  moreover have "port (dc demo_world) = Str ''COM3''"
    by (simp add: demo_world_def)
  ultimately show ?thesis
    using upload_unplugged by simp
qed

text \<open>
  C4. The claim asks for the listener to be resumed on every exit path. The source calls
  \<^verbatim>\<open>resumeListening\<close> after the dispatch with no \<^verbatim>\<open>finally\<close>: when the strategy throws,
  the upload ends with the listener paused. Here the pattern-driven strategy throws
  because the port cannot be opened for the touch (the stop runs, the failure is passed
  on); the same happens on the \<^verbatim>\<open>TypeError\<close> of the wait that timed out.
\<close>

theorem upload_leaves_listener_paused:
  "upload busy_env demo_world =
     (Inl SerialOpenError,
      demo_world\<lparr>trace :=
          [PauseListening,
           LoadFile ''/opt/arduino/hardware/arduino/avr/platform.txt'',
           LoadFile ''/opt/arduino/hardware/arduino/avr/boards.txt'',
           CloseSerialMonitor (Str ''COM3''), ListPorts,
           SerialOpen (Str ''COM3'') 1200, SerialStop (Str ''COM3'')],
         list_calls := 1, listening := False\<rparr>)
   \<and> listening demo_world
   \<and> fst (upload unplugged_env demo_world) = Inl TypeError
   \<and> listening (snd (upload unplugged_env demo_world)) = False"
proof -
  have busy: "upload busy_env demo_world =
     (Inl SerialOpenError,
      demo_world\<lparr>trace :=
          [PauseListening,
           LoadFile ''/opt/arduino/hardware/arduino/avr/platform.txt'',
           LoadFile ''/opt/arduino/hardware/arduino/avr/boards.txt'',
           CloseSerialMonitor (Str ''COM3''), ListPorts,
           SerialOpen (Str ''COM3'') 1200, SerialStop (Str ''COM3'')],
         list_calls := 1, listening := False\<rparr>)"
    by (simp add: upload_def getBoardBuildString_def sketch_missing_def fileExistsSync_def
        uploadByPattern_def resolvePackagePath_def lstatSync_def member_truthy_def
        prepareUploadPort_def loadFile_def closeSerialMonitor_def
        pauseListening_def SerialPortCtrl_list_def SerialPortCtrl_open_def SerialPortCtrl_stop_def
        emit_def props_get_def props_set_def props_merge_def extractWithPrefix_def map_add_def
        busy_env_def demo_env_def demo_world_def demo_vscode_def leonardo_def demo_settings_def
        path_join_def path_basename_def Let_def)
  show ?thesis
    using busy upload_unplugged by (simp add: demo_world_def)
qed


end
